theory Spec2Isabelle
  imports Main "HOL-Library.Word"
begin

section \<open>Durations\<close>

text \<open>
  Go's \<^verbatim>\<open>time.Duration\<close> is an \<^verbatim>\<open>int64\<close> counting nanoseconds: a 64-bit word read
  as two's complement. Multiplication wraps modulo \<open>2 ^ 64\<close>; comparisons are signed.
  The attempt counters of the package have Go type \<^verbatim>\<open>int\<close>; the counter of \<^verbatim>\<open>Do\<close>
  only counts invocations, and is modelled as an unbounded integer.
\<close>

type_synonym duration = "64 word"

definition Nanosecond :: duration where
  "Nanosecond = 1"

definition Microsecond :: duration where
  "Microsecond = 1000 * Nanosecond"

definition Millisecond :: duration where
  "Millisecond = 1000 * Microsecond"

definition Second :: duration where
  "Second = 1000 * Millisecond"

text \<open>
  \<^verbatim>\<open>capDelay\<close>: \<^verbatim>\<open>if max > 0 && delay > max { return max }; return delay\<close>,
  both comparisons on signed 64-bit values.
\<close>

definition capDelay :: "duration \<Rightarrow> duration \<Rightarrow> duration" where
  "capDelay delay mx = (if 0 <s mx \<and> mx <s delay then mx else delay)"

text \<open>
  The capper in the words of the specification, on mathematical integers: the delay
  unchanged if the maximum is not positive or the delay does not exceed it, the
  maximum otherwise.
\<close>

definition capDelay_spec :: "int \<Rightarrow> int \<Rightarrow> int" where
  "capDelay_spec delay mx = (if mx \<le> 0 \<or> delay \<le> mx then delay else mx)"

section \<open>Errors\<close>

text \<open>
  A Go \<^verbatim>\<open>error\<close> is an interface value: \<^verbatim>\<open>nil\<close> or an error object. The objects
  that matter to \<^verbatim>\<open>errors.As\<close> are
  \<^item> a leaf without an \<^verbatim>\<open>Unwrap\<close> method (\<^verbatim>\<open>errors.New\<close>),
  \<^item> a wrapper with \<^verbatim>\<open>Unwrap() error\<close> (\<^verbatim>\<open>fmt.Errorf\<close> with \<^verbatim>\<open>%w\<close>),
  \<^item> a wrapper with \<^verbatim>\<open>Unwrap() []error\<close> (\<^verbatim>\<open>errors.Join\<close>),
  \<^item> the package's own \<^verbatim>\<open>*fatal\<close>, whose \<^verbatim>\<open>cause\<close> field may be \<^verbatim>\<open>nil\<close>.
  Error types with a method \<^verbatim>\<open>As\<close> of their own are not modelled.
\<close>

datatype err =
    New string
  | Wrapped string err
  | Joined "err list"
  | Fatal "err option"

type_synonym error = "err option"

text \<open>\<^verbatim>\<open>EndRetry\<close> returns \<^verbatim>\<open>&fatal{cause: err}\<close>, never \<^verbatim>\<open>nil\<close>.\<close>

definition EndRetry :: "error \<Rightarrow> error" where
  "EndRetry e = Some (Fatal e)"

text \<open>\<^verbatim>\<open>(*fatal).Unwrap\<close> returns the \<^verbatim>\<open>cause\<close> field.\<close>

fun fatal_Unwrap :: "err \<Rightarrow> error" where
  "fatal_Unwrap (Fatal c) = c"
| "fatal_Unwrap _ = None"

text \<open>
  \<^verbatim>\<open>errors.As(err, &fatalErr)\<close> of the Go standard library, for the target type
  \<^verbatim>\<open>*fatal\<close>: it walks the chain from the outside, depth first through
  \<^verbatim>\<open>Unwrap() []error\<close>, and stores the first \<^verbatim>\<open>*fatal\<close> it meets. The result is that
  \<^verbatim>\<open>*fatal\<close> object, or \<open>None\<close> where \<^verbatim>\<open>errors.As\<close> returns false.
\<close>

fun errors_As_fatal :: "err \<Rightarrow> err option"
  and errors_As_fatal_list :: "err list \<Rightarrow> err option" where
  "errors_As_fatal (New s) = None"
| "errors_As_fatal (Wrapped s e) = errors_As_fatal e"
| "errors_As_fatal (Joined es) = errors_As_fatal_list es"
| "errors_As_fatal (Fatal c) = Some (Fatal c)"
| "errors_As_fatal_list [] = None"
| "errors_As_fatal_list (e # es) =
     (case errors_As_fatal e of Some x \<Rightarrow> Some x | None \<Rightarrow> errors_As_fatal_list es)"

text \<open>
  \<^verbatim>\<open>checkFatal\<close>: the cause of the \<^verbatim>\<open>*fatal\<close> found by \<^verbatim>\<open>errors.As\<close>, \<^verbatim>\<open>nil\<close> when there
  is none (\<^verbatim>\<open>errors.As\<close> is false on a \<^verbatim>\<open>nil\<close> error too).
\<close>

definition checkFatal :: "error \<Rightarrow> error" where
  "checkFatal e =
     (case e of
        None \<Rightarrow> None
      | Some x \<Rightarrow> (case errors_As_fatal x of Some fatalErr \<Rightarrow> fatal_Unwrap fatalErr | None \<Rightarrow> None))"

text \<open>An error object none of whose layers, at any depth, is a \<^verbatim>\<open>*fatal\<close>.\<close>

fun no_fatal :: "err \<Rightarrow> bool"
  and no_fatal_list :: "err list \<Rightarrow> bool" where
  "no_fatal (New s) = True"
| "no_fatal (Wrapped s e) = no_fatal e"
| "no_fatal (Joined es) = no_fatal_list es"
| "no_fatal (Fatal c) = False"
| "no_fatal_list [] = True"
| "no_fatal_list (e # es) = (no_fatal e \<and> no_fatal_list es)"

text \<open>A retryable result of the operation: an error, and not fatal-wrapped.\<close>

definition retryable :: "error \<Rightarrow> bool" where
  "retryable e = (case e of None \<Rightarrow> False | Some x \<Rightarrow> no_fatal x)"

section \<open>Backoff strategies\<close>

text \<open>
  A run-time panic of Go is a value of the model. The shift \<^verbatim>\<open>1<<attempt\<close> panics on
  a negative count, and \<^verbatim>\<open>rand.Intn(n)\<close> on \<^verbatim>\<open>n <= 0\<close>.
\<close>

datatype panic = NegativeShift | InvalidIntnArgument

text \<open>
  The interface \<^verbatim>\<open>retryStrategy\<close>. \<^verbatim>\<open>GetDelay\<close> may panic and may change state of the
  strategy (the random source of \<^verbatim>\<open>RandomizedBackoff\<close>), of type \<open>'r\<close>.
\<close>

record 'r retryStrategy =
  GetDelay :: "int \<Rightarrow> 'r \<Rightarrow> (panic + duration) \<times> 'r"
  GetAttempts :: int

record LinearBackoff =
  lin_retryDelay :: duration
  lin_maxDelay :: duration
  lin_attempts :: int

definition NewLinearBackoff :: "duration \<Rightarrow> duration \<Rightarrow> int \<Rightarrow> LinearBackoff" where
  "NewLinearBackoff retryDelay maxDelay attempts =
     \<lparr>lin_retryDelay = retryDelay, lin_maxDelay = maxDelay, lin_attempts = attempts\<rparr>"

text \<open>\<^verbatim>\<open>capDelay(time.Duration(attempt)*b.retryDelay, b.maxDelay)\<close>\<close>

definition LinearBackoff_GetDelay :: "LinearBackoff \<Rightarrow> int \<Rightarrow> duration" where
  "LinearBackoff_GetDelay b attempt =
     capDelay (word_of_int attempt * lin_retryDelay b) (lin_maxDelay b)"

definition LinearBackoff_GetAttempts :: "LinearBackoff \<Rightarrow> int" where
  "LinearBackoff_GetAttempts b = lin_attempts b"

record ExponentialBackoff =
  exp_retryDelay :: duration
  exp_maxDelay :: duration
  exp_attempts :: int

definition NewExponentialBackoff :: "duration \<Rightarrow> duration \<Rightarrow> int \<Rightarrow> ExponentialBackoff" where
  "NewExponentialBackoff retryDelay maxDelay attempts =
     \<lparr>exp_retryDelay = retryDelay, exp_maxDelay = maxDelay, exp_attempts = attempts\<rparr>"

text \<open>
  \<^verbatim>\<open>capDelay(time.Duration(1<<attempt)*b.retryDelay, b.maxDelay)\<close>. The constant
  \<^verbatim>\<open>1\<close> takes the type of the conversion, so the shift is a shift of an \<^verbatim>\<open>int64\<close>:
  bits shifted beyond bit 63 are lost, and a count of 64 or more gives 0.
\<close>

definition ExponentialBackoff_GetDelay :: "ExponentialBackoff \<Rightarrow> int \<Rightarrow> panic + duration" where
  "ExponentialBackoff_GetDelay b attempt =
     (if attempt < 0 then Inl NegativeShift
      else Inr (capDelay (push_bit (nat attempt) 1 * exp_retryDelay b) (exp_maxDelay b)))"

definition ExponentialBackoff_GetAttempts :: "ExponentialBackoff \<Rightarrow> int" where
  "ExponentialBackoff_GetAttempts b = exp_attempts b"

text \<open>
  \<^verbatim>\<open>RandomizedBackoff\<close> owns a \<^verbatim>\<open>*rand.Rand\<close>. The generator of \<^verbatim>\<open>math/rand\<close> is a
  parameter here: a state \<open>'g\<close> and the function \<open>Intn\<close> on it. The argument
  \<^verbatim>\<open>attempt+1\<close> is a sum of Go \<^verbatim>\<open>int\<close>s, taken as 64 bits wide: at the largest \<^verbatim>\<open>int\<close> it
  wraps to the smallest one, on which \<^verbatim>\<open>Intn\<close> panics.
\<close>

record RandomizedBackoff =
  rnd_retryDelay :: duration
  rnd_maxDelay :: duration
  rnd_attempts :: int

definition RandomizedBackoff_GetDelay ::
  "('g \<Rightarrow> int \<Rightarrow> int \<times> 'g) \<Rightarrow> RandomizedBackoff \<Rightarrow> int \<Rightarrow> 'g \<Rightarrow> (panic + duration) \<times> 'g" where
  "RandomizedBackoff_GetDelay Intn b attempt g =
     (let n = signed_take_bit 63 (attempt + 1) in
      if n \<le> 0 then (Inl InvalidIntnArgument, g)
      else (case Intn g n of
              (k, g') \<Rightarrow> (Inr (capDelay (word_of_int k * rnd_retryDelay b) (rnd_maxDelay b)), g')))"

definition RandomizedBackoff_GetAttempts :: "RandomizedBackoff \<Rightarrow> int" where
  "RandomizedBackoff_GetAttempts b = rnd_attempts b"

record ConstantBackoff =
  const_retryDelay :: duration
  const_attempts :: int

definition NewConstantBackoff :: "duration \<Rightarrow> int \<Rightarrow> ConstantBackoff" where
  "NewConstantBackoff retryDelay attempts =
     \<lparr>const_retryDelay = retryDelay, const_attempts = attempts\<rparr>"

definition ConstantBackoff_GetDelay :: "ConstantBackoff \<Rightarrow> int \<Rightarrow> duration" where
  "ConstantBackoff_GetDelay b attempt = const_retryDelay b"

definition ConstantBackoff_GetAttempts :: "ConstantBackoff \<Rightarrow> int" where
  "ConstantBackoff_GetAttempts b = const_attempts b"

text \<open>The four variants as values of the interface.\<close>

definition LinearBackoff_strategy :: "LinearBackoff \<Rightarrow> 'r retryStrategy" where
  "LinearBackoff_strategy b =
     \<lparr>GetDelay = (\<lambda>attempt r. (Inr (LinearBackoff_GetDelay b attempt), r)),
      GetAttempts = LinearBackoff_GetAttempts b\<rparr>"

definition ExponentialBackoff_strategy :: "ExponentialBackoff \<Rightarrow> 'r retryStrategy" where
  "ExponentialBackoff_strategy b =
     \<lparr>GetDelay = (\<lambda>attempt r. (ExponentialBackoff_GetDelay b attempt, r)),
      GetAttempts = ExponentialBackoff_GetAttempts b\<rparr>"

definition RandomizedBackoff_strategy ::
  "('g \<Rightarrow> int \<Rightarrow> int \<times> 'g) \<Rightarrow> RandomizedBackoff \<Rightarrow> 'g retryStrategy" where
  "RandomizedBackoff_strategy Intn b =
     \<lparr>GetDelay = RandomizedBackoff_GetDelay Intn b,
      GetAttempts = RandomizedBackoff_GetAttempts b\<rparr>"

definition ConstantBackoff_strategy :: "ConstantBackoff \<Rightarrow> 'r retryStrategy" where
  "ConstantBackoff_strategy b =
     \<lparr>GetDelay = (\<lambda>attempt r. (Inr (ConstantBackoff_GetDelay b attempt), r)),
      GetAttempts = ConstantBackoff_GetAttempts b\<rparr>"

section \<open>The retry loop\<close>

text \<open>
  The operation \<^verbatim>\<open>f func() error\<close> is a closure over state of its own: a function
  from its state \<open>'s\<close> to the error it returns and its next state. What a run of
  \<^verbatim>\<open>Do\<close> does to the outside is recorded as a trace: each invocation of the operation
  and each \<^verbatim>\<open>time.Sleep\<close>. An operation that panics or never returns is not modelled.
\<close>

datatype event = Invoke | Sleep duration

record ('s, 'r) world =
  op_state :: 's
  rs_state :: 'r
  trace :: "event list"

definition invocations :: "('s, 'r) world \<Rightarrow> nat" where
  "invocations w = length (filter (\<lambda>ev. ev = Invoke) (trace w))"

text \<open>Calling \<^verbatim>\<open>f()\<close>.\<close>

definition invoke :: "('s \<Rightarrow> error \<times> 's) \<Rightarrow> ('s, 'r) world \<Rightarrow> error \<times> ('s, 'r) world" where
  "invoke f w =
     (case f (op_state w) of
        (e, s') \<Rightarrow> (e, w\<lparr>op_state := s', trace := trace w @ [Invoke]\<rparr>))"

text \<open>\<^verbatim>\<open>shouldStopRetry\<close>: \<^verbatim>\<open>maxAttempts != -1 && attempts >= maxAttempts\<close>\<close>

definition shouldStopRetry :: "int \<Rightarrow> int \<Rightarrow> bool" where
  "shouldStopRetry attempts maxAttempts = (maxAttempts \<noteq> - 1 \<and> attempts \<ge> maxAttempts)"

text \<open>
  \<^verbatim>\<open>attemptRetry\<close>: sleep for \<^verbatim>\<open>rs.GetDelay(attempts)\<close> when \<^verbatim>\<open>attempts > 0\<close>, then
  call \<^verbatim>\<open>f\<close>. A panic of \<^verbatim>\<open>GetDelay\<close> propagates.
\<close>

definition attemptRetry ::
  "('s \<Rightarrow> error \<times> 's) \<Rightarrow> 'r retryStrategy \<Rightarrow> int \<Rightarrow> ('s, 'r) world
     \<Rightarrow> (panic + error) \<times> ('s, 'r) world" where
  "attemptRetry f rs attempts w =
     (if attempts > 0 then
        (case GetDelay rs attempts (rs_state w) of
           (Inl p, r') \<Rightarrow> (Inl p, w\<lparr>rs_state := r'\<rparr>)
         | (Inr d, r') \<Rightarrow>
             (case invoke f (w\<lparr>rs_state := r', trace := trace w @ [Sleep d]\<rparr>) of
                (e, w') \<Rightarrow> (Inr e, w')))
      else (case invoke f w of (e, w') \<Rightarrow> (Inr e, w')))"

text \<open>
  The \<^verbatim>\<open>for\<close> loop of \<^verbatim>\<open>Do\<close>. It need not end (budget \<open>-1\<close> and an operation that
  always fails), so its result is an option, \<open>None\<close> for a run that never returns.
  A returning run gives \<open>Inr (attempts, err)\<close>, or \<open>Inl\<close> a panic. The source returns
  \<^verbatim>\<open>attempts + 1\<close> on success and on a fatal error; otherwise it increments
  \<^verbatim>\<open>attempts\<close>, tests the incremented counter and, after the \<^verbatim>\<open>break\<close>, returns it:
  \<open>attempts + 1\<close> in terms of the counter at the head of the iteration.
\<close>

partial_function (option) Do_loop ::
  "('s \<Rightarrow> error \<times> 's) \<Rightarrow> 'r retryStrategy \<Rightarrow> int \<Rightarrow> int \<Rightarrow> ('s, 'r) world
     \<Rightarrow> ((panic + int \<times> error) \<times> ('s, 'r) world) option" where
  "Do_loop f rs maxAttempts attempts w =
     (case attemptRetry f rs attempts w of
        (Inl p, w') \<Rightarrow> Some (Inl p, w')
      | (Inr err, w') \<Rightarrow>
          if err = None then Some (Inr (attempts + 1, None), w')
          else if checkFatal err \<noteq> None then Some (Inr (attempts + 1, checkFatal err), w')
          else if shouldStopRetry (attempts + 1) maxAttempts
            then Some (Inr (attempts + 1, err), w')
          else Do_loop f rs maxAttempts (attempts + 1) w')"

definition Do ::
  "('s \<Rightarrow> error \<times> 's) \<Rightarrow> 'r retryStrategy \<Rightarrow> ('s, 'r) world
     \<Rightarrow> ((panic + int \<times> error) \<times> ('s, 'r) world) option" where
  "Do f rs w = Do_loop f rs (GetAttempts rs) 0 w"

declare Do_loop.simps [code]

section \<open>Vocabulary of the properties\<close>

text \<open>
  A strategy whose \<^verbatim>\<open>GetDelay\<close> returns a delay, without a panic, at every positive
  attempt index and in every state. The loop passes it positive indices only.
\<close>

definition GetDelay_returns :: "'r retryStrategy \<Rightarrow> bool" where
  "GetDelay_returns rs =
     (\<forall>attempt r. 0 < attempt \<longrightarrow> (\<exists>d r'. GetDelay rs attempt r = (Inr d, r')))"

text \<open>
  The state of the operation after \<open>k\<close> invocations from state \<open>s\<close>, and what its
  next invocation, number \<open>k + 1\<close>, then returns.
\<close>

definition op_after :: "('s \<Rightarrow> error \<times> 's) \<Rightarrow> nat \<Rightarrow> 's \<Rightarrow> 's" where
  "op_after f k s = ((\<lambda>x. snd (f x)) ^^ k) s"

definition op_result :: "('s \<Rightarrow> error \<times> 's) \<Rightarrow> nat \<Rightarrow> 's \<Rightarrow> error" where
  "op_result f k s = fst (f (op_after f k s))"





subsection \<open>Operations of the examples and tests\<close>

text \<open>
  The closures of the README and of the tests; their state is the counter they
  close over (for the first and the last, the number of calls so far).
\<close>

definition always_fails :: "nat \<Rightarrow> error \<times> nat" where
  "always_fails s = (Some (New ''temporary error''), Suc s)"



text \<open>An operation that returns \<^verbatim>\<open>EndRetry(nil)\<close> at every call.\<close>

definition always_EndRetry_nil :: "nat \<Rightarrow> error \<times> nat" where
  "always_EndRetry_nil s = (EndRetry None, Suc s)"



definition start :: "(nat, unit) world" where
  "start = \<lparr>op_state = 0, rs_state = (), trace = []\<rparr>"

section \<open>Lemmas\<close>

subsection \<open>Delays\<close>

lemma sint_capDelay: "sint (capDelay d m) = capDelay_spec (sint d) (sint m)"
  by (auto simp: capDelay_def capDelay_spec_def word_sless_alt)

lemma capDelay_cases: "capDelay d m = (if sint m \<le> 0 \<or> sint d \<le> sint m then d else m)"
  by (auto simp: capDelay_def word_sless_alt)

lemma capDelay_le_max: "0 < sint m \<Longrightarrow> sint (capDelay d m) \<le> sint m"
  by (auto simp: capDelay_def word_sless_alt)

lemma sint_of_int_mult:
  "sint (word_of_int k * (d :: duration)) = signed_take_bit 63 (k * sint d)"
proof -
  have "word_of_int k * d = (word_of_int (k * sint d) :: duration)"
    by simp
  then show ?thesis
    by (simp only: signed_of_int) simp
qed

lemma signed_take_bit_in_range:
  "- (2 ^ 63) \<le> (x::int) \<Longrightarrow> x < 2 ^ 63 \<Longrightarrow> signed_take_bit 63 x = x"
  by (simp add: signed_take_bit_int_eq_self_iff)

lemma push_bit_one_word: "push_bit n (1 :: duration) = word_of_int (2 ^ n)"
  by (simp add: push_bit_eq_mult)

lemma shift_ge_64: "64 \<le> n \<Longrightarrow> push_bit n (1 :: duration) = 0"
  by (simp add: push_bit_eq_mult)


subsection \<open>Errors and operations\<close>

lemma no_fatal_As:
  "no_fatal e \<Longrightarrow> errors_As_fatal e = None"
  "no_fatal_list es \<Longrightarrow> errors_As_fatal_list es = None"
  by (induction e and es rule: errors_As_fatal_errors_As_fatal_list.induct) auto

lemma checkFatal_retryable: "retryable e \<Longrightarrow> checkFatal e = None"
  by (auto simp: retryable_def checkFatal_def no_fatal_As split: option.splits)

lemma retryable_not_None: "retryable e \<Longrightarrow> e \<noteq> None"
  by (cases e) (simp_all add: retryable_def)

lemma invocations_invoke:
  "invocations (snd (invoke f w)) = Suc (invocations w)"
  by (simp add: invoke_def invocations_def split: prod.splits)

lemma op_after_0: "op_after f 0 s = s"
  by (simp add: op_after_def)

lemma op_after_Suc: "op_after f (Suc k) s = op_after f k (snd (f s))"
  using funpow_swap1 [of "\<lambda>x. snd (f x)" k s] by (simp add: op_after_def)

lemma op_result_0: "op_result f 0 s = fst (f s)"
  by (simp add: op_result_def op_after_0)

lemma op_result_Suc: "op_result f (Suc k) s = op_result f k (snd (f s))"
  by (simp add: op_result_def op_after_Suc)

subsection \<open>Steps of the loop\<close>

lemma attemptRetry_returns:
  assumes "GetDelay_returns rs"
  shows "\<exists>w'. attemptRetry f rs a w = (Inr (fst (f (op_state w))), w')
           \<and> op_state w' = snd (f (op_state w))
           \<and> invocations w' = Suc (invocations w)"
proof (cases "0 < a")
  case True
  with assms obtain d r' where g: "GetDelay rs a (rs_state w) = (Inr d, r')"
    unfolding GetDelay_returns_def by blast
  show ?thesis using True g
    by (simp add: attemptRetry_def invoke_def invocations_def split: prod.splits)
next
  case False
  then show ?thesis
    by (simp add: attemptRetry_def invoke_def invocations_def split: prod.splits)
qed



lemma Do_loop_exhausted:
  assumes "attemptRetry f rs a w = (Inr e, w')" "retryable e" "shouldStopRetry (a + 1) n"
  shows "Do_loop f rs n a w = Some (Inr (a + 1, e), w')"
  using assms by (subst Do_loop.simps) (simp add: checkFatal_retryable retryable_not_None)

lemma Do_loop_continue:
  assumes "attemptRetry f rs a w = (Inr e, w')" "retryable e" "\<not> shouldStopRetry (a + 1) n"
  shows "Do_loop f rs n a w = Do_loop f rs n (a + 1) w'"
  using assms by (subst Do_loop.simps) (simp add: checkFatal_retryable retryable_not_None)

lemma Do_loop_retries:
  assumes rs: "GetDelay_returns rs"
  shows "(\<forall>i<k. retryable (op_result f i (op_state w)) \<and> \<not> shouldStopRetry (a + int i + 1) n)
    \<Longrightarrow> \<exists>w'. Do_loop f rs n a w = Do_loop f rs n (a + int k) w'
           \<and> op_state w' = op_after f k (op_state w)
           \<and> invocations w' = invocations w + k"
proof (induction k arbitrary: a w)
  case 0
  show ?case by (rule exI [of _ w]) (simp add: op_after_0)
next
  case (Suc k)
  from attemptRetry_returns [OF rs, of f a w] obtain w1 where
    w1: "attemptRetry f rs a w = (Inr (fst (f (op_state w))), w1)"
        "op_state w1 = snd (f (op_state w))"
        "invocations w1 = Suc (invocations w)" by blast
  from Suc.prems have first: "retryable (fst (f (op_state w)))" "\<not> shouldStopRetry (a + 1) n"
    by (auto simp: op_result_0 dest: spec [of _ 0])
  have step: "Do_loop f rs n a w = Do_loop f rs n (a + 1) w1"
    by (rule Do_loop_continue [OF w1(1) first])
  have rest: "\<forall>i<k. retryable (op_result f i (op_state w1)) \<and> \<not> shouldStopRetry (a + 1 + int i + 1) n"
  proof (intro allI impI)
    fix i assume "i < k"
    then have "Suc i < Suc k" by simp
    with Suc.prems have "retryable (op_result f (Suc i) (op_state w)) \<and> \<not> shouldStopRetry (a + int (Suc i) + 1) n"
      by blast
    then show "retryable (op_result f i (op_state w1)) \<and> \<not> shouldStopRetry (a + 1 + int i + 1) n"
      by (simp add: op_result_Suc w1(2) add.commute add.left_commute)
  qed
  from Suc.IH [OF rest] obtain w' where
    w': "Do_loop f rs n (a + 1) w1 = Do_loop f rs n (a + 1 + int k) w'"
        "op_state w' = op_after f k (op_state w1)"
        "invocations w' = invocations w1 + k" by blast
  have idx: "a + 1 + int k = a + int (Suc k)" by simp
  show ?case
    by (rule exI [of _ w']) (simp only: step w' w1 op_after_Suc idx, simp)
qed

subsection \<open>Runs of the loop\<close>

lemma Do_reaches:
  assumes rs: "GetDelay_returns rs"
    and fails: "\<forall>i<k. retryable (op_result f i (op_state w)) \<and> \<not> shouldStopRetry (int i + 1) n"
  shows "\<exists>w1 w'. Do_loop f rs n 0 w = Do_loop f rs n (int k) w1
           \<and> attemptRetry f rs (int k) w1 = (Inr (op_result f k (op_state w)), w')
           \<and> op_state w' = op_after f (Suc k) (op_state w)
           \<and> invocations w' = invocations w + Suc k"
proof -
  from fails have "\<forall>i<k. retryable (op_result f i (op_state w)) \<and> \<not> shouldStopRetry (0 + int i + 1) n"
    by simp
  from Do_loop_retries [OF rs this] obtain w1 where
    w1: "Do_loop f rs n 0 w = Do_loop f rs n (0 + int k) w1"
        "op_state w1 = op_after f k (op_state w)"
        "invocations w1 = invocations w + k" by blast
  from attemptRetry_returns [OF rs, of f "int k" w1] obtain w' where
    w': "attemptRetry f rs (int k) w1 = (Inr (fst (f (op_state w1))), w')"
        "op_state w' = snd (f (op_state w1))"
        "invocations w' = Suc (invocations w1)" by blast
  have a: "fst (f (op_state w1)) = op_result f k (op_state w)"
    by (simp add: op_result_def w1(2))
  have b: "snd (f (op_state w1)) = op_after f (Suc k) (op_state w)"
    by (simp add: op_after_def w1(2))
  show ?thesis
    using w1 w' a b by (intro exI [of _ w1] exI [of _ w']) simp
qed

lemma Do_exhausted:
  assumes rs: "GetDelay_returns rs"
    and n: "GetAttempts rs \<noteq> - 1"
    and m: "m = nat (max (GetAttempts rs) 1)"
    and fails: "\<forall>i<m. retryable (op_result f i (op_state w))"
  shows "\<exists>w'. Do f rs w = Some (Inr (int m, op_result f (m - 1) (op_state w)), w')
           \<and> op_state w' = op_after f m (op_state w)
           \<and> invocations w' = invocations w + m"
proof -
  have mpos: "0 < m" using m by simp
  have "\<forall>i<m - 1. retryable (op_result f i (op_state w)) \<and> \<not> shouldStopRetry (int i + 1) (GetAttempts rs)"
    using fails m by (auto simp: shouldStopRetry_def)
  from Do_reaches [OF rs this] obtain w1 w' where
    r: "Do_loop f rs (GetAttempts rs) 0 w = Do_loop f rs (GetAttempts rs) (int (m - 1)) w1"
       "attemptRetry f rs (int (m - 1)) w1 = (Inr (op_result f (m - 1) (op_state w)), w')"
       "op_state w' = op_after f (Suc (m - 1)) (op_state w)"
       "invocations w' = invocations w + Suc (m - 1)" by blast
  have last: "retryable (op_result f (m - 1) (op_state w))" using fails mpos by simp
  have stop: "shouldStopRetry (int (m - 1) + 1) (GetAttempts rs)"
    using n m by (auto simp: shouldStopRetry_def)
  have "Do_loop f rs (GetAttempts rs) (int (m - 1)) w1
        = Some (Inr (int (m - 1) + 1, op_result f (m - 1) (op_state w)), w')"
    by (rule Do_loop_exhausted [OF r(2) last stop])
  moreover have "int (m - 1) + 1 = int m" using mpos by simp
  ultimately show ?thesis using r(1,3,4) mpos
    by (intro exI [of _ w']) (simp add: Do_def)
qed



subsection \<open>What a returning run has done\<close>







subsection \<open>Chains of wrapping\<close>






lemma GetDelay_returns_Linear: "GetDelay_returns (LinearBackoff_strategy b)"
  by (simp add: GetDelay_returns_def LinearBackoff_strategy_def)

lemma GetDelay_returns_Exponential: "GetDelay_returns (ExponentialBackoff_strategy b)"
  by (simp add: GetDelay_returns_def ExponentialBackoff_strategy_def ExponentialBackoff_GetDelay_def)

subsection \<open>The operations and strategies of the examples\<close>

lemma always_fails_result: "op_result always_fails i s = Some (New ''temporary error'')"
  by (simp add: op_result_def always_fails_def)

lemma always_fails_retryable: "retryable (op_result always_fails i s)"
  by (simp add: always_fails_result retryable_def)


lemma invocations_start: "invocations start = 0"
  by (simp add: invocations_def start_def)

lemmas run_defs = Do_def attemptRetry_def invoke_def shouldStopRetry_def checkFatal_def
  EndRetry_def ConstantBackoff_strategy_def ConstantBackoff_GetDelay_def
  ConstantBackoff_GetAttempts_def NewConstantBackoff_def start_def

lemmas linear_defs = LinearBackoff_strategy_def LinearBackoff_GetDelay_def
  LinearBackoff_GetAttempts_def NewLinearBackoff_def capDelay_def word_sless_alt
  Second_def Millisecond_def Microsecond_def Nanosecond_def

lemma GetAttempts_Linear:
  "GetAttempts (LinearBackoff_strategy (NewLinearBackoff d m n)) = n"
  by (simp add: LinearBackoff_strategy_def LinearBackoff_GetAttempts_def NewLinearBackoff_def)



lemmas exponential_defs = ExponentialBackoff_GetDelay_def NewExponentialBackoff_def
  capDelay_def word_sless_alt Second_def Millisecond_def Microsecond_def Nanosecond_def


section \<open>Properties of the retry loop and of the strategies\<close>









text \<open>
  C4. An operation that returns \<^verbatim>\<open>EndRetry(nil)\<close>: \<^verbatim>\<open>checkFatal\<close> gives \<^verbatim>\<open>nil\<close> for
  it, which \<^verbatim>\<open>Do\<close> reads as not fatal. Under a budget of 3 the run does not end at the
  first invocation: the operation is invoked three times, and the run returns the
  wrapper itself.
\<close>

theorem C4_nil_cause_retried:
  "checkFatal (EndRetry None) = None
   \<and> Do always_EndRetry_nil (ConstantBackoff_strategy (NewConstantBackoff Millisecond 3)) start =
       Some (Inr (3, EndRetry None),
             \<lparr>op_state = 3, rs_state = (),
                trace = [Invoke, Sleep Millisecond, Invoke, Sleep Millisecond, Invoke]\<rparr>)"
  by (simp add: run_defs Do_loop.simps always_EndRetry_nil_def)






text \<open>
  C7. \<^verbatim>\<open>capDelay\<close> is defined on every pair of durations, and read as signed integers
  it is the capper of the specification: the delay unchanged when the maximum is not
  positive or the delay does not exceed it, the maximum otherwise; so the result never
  exceeds a positive maximum.
\<close>

theorem C7_capDelay:
  "sint (capDelay d m) = capDelay_spec (sint d) (sint m)
   \<and> capDelay d m = (if sint m \<le> 0 \<or> sint d \<le> sint m then d else m)
   \<and> (0 < sint m \<longrightarrow> sint (capDelay d m) \<le> sint m)"
  using sint_capDelay [of d m] capDelay_cases [of d m] capDelay_le_max [of m d] by simp

text \<open>The test "Cap applied": a delay of 2 s under a maximum of 1 s.\<close>

theorem C7_capDelay_witness:
  "sint (capDelay (2 * Second) Second) = capDelay_spec 2000000000 1000000000
   \<and> capDelay (2 * Second) Second = Second
   \<and> sint (capDelay (2 * Second) Second) \<le> 1000000000"
  using C7_capDelay [of "2 * Second" Second]
  by (simp add: Second_def Millisecond_def Microsecond_def Nanosecond_def capDelay_spec_def)

text \<open>
  C8. \<^verbatim>\<open>GetDelay\<close> of \<^verbatim>\<open>LinearBackoff\<close> at attempt \<open>a\<close> is \<^verbatim>\<open>capDelay\<close> of the product
  of \<open>a\<close> and the base delay, the product taken in \<^verbatim>\<open>int64\<close>; read as integers, it is
  the capper of the specification at the wrapped product, and at the exact product
  \<open>a \<times> b\<close> whenever that fits in 64 bits. For \<^verbatim>\<open>NewLinearBackoff(500ms, 2s, 5)\<close> and
  an operation that always fails retryably, \<^verbatim>\<open>Do\<close> returns 5 and the error of the
  fifth invocation, after five invocations; and \<^verbatim>\<open>GetDelay(4)\<close> is 2 s, which is four
  times 500 ms.
\<close>

theorem C8_linear_delay:
  "LinearBackoff_GetDelay b a = capDelay (word_of_int a * lin_retryDelay b) (lin_maxDelay b)
   \<and> sint (LinearBackoff_GetDelay b a)
       = capDelay_spec (signed_take_bit 63 (a * sint (lin_retryDelay b))) (sint (lin_maxDelay b))
   \<and> (- (2 ^ 63) \<le> a * sint (lin_retryDelay b) \<and> a * sint (lin_retryDelay b) < 2 ^ 63 \<longrightarrow>
        sint (LinearBackoff_GetDelay b a)
          = capDelay_spec (a * sint (lin_retryDelay b)) (sint (lin_maxDelay b)))
   \<and> ((\<forall>i. retryable (op_result f i (op_state w))) \<longrightarrow>
        (\<exists>w'. Do f (LinearBackoff_strategy (NewLinearBackoff (500 * Millisecond) (2 * Second) 5)) w
                = Some (Inr (5, op_result f 4 (op_state w)), w')
             \<and> invocations w' = invocations w + 5))
   \<and> LinearBackoff_GetDelay (NewLinearBackoff (500 * Millisecond) (2 * Second) 5) 4 = 2 * Second
   \<and> sint (2 * Second) = 4 * sint (500 * Millisecond)"
proof (intro conjI impI)
  show "LinearBackoff_GetDelay b a = capDelay (word_of_int a * lin_retryDelay b) (lin_maxDelay b)"
    by (simp add: LinearBackoff_GetDelay_def)
next
  show wrapped: "sint (LinearBackoff_GetDelay b a)
       = capDelay_spec (signed_take_bit 63 (a * sint (lin_retryDelay b))) (sint (lin_maxDelay b))"
    by (simp only: LinearBackoff_GetDelay_def sint_capDelay sint_of_int_mult)
  assume "- (2 ^ 63) \<le> a * sint (lin_retryDelay b) \<and> a * sint (lin_retryDelay b) < 2 ^ 63"
  then have "signed_take_bit 63 (a * sint (lin_retryDelay b)) = a * sint (lin_retryDelay b)"
    by (simp add: signed_take_bit_in_range)
  with wrapped show "sint (LinearBackoff_GetDelay b a)
          = capDelay_spec (a * sint (lin_retryDelay b)) (sint (lin_maxDelay b))"
    by simp
next
  let ?rs = "LinearBackoff_strategy (NewLinearBackoff (500 * Millisecond) (2 * Second) 5)
      :: 'b retryStrategy"
  assume fails: "\<forall>i. retryable (op_result f i (op_state w))"
  have n: "GetAttempts ?rs \<noteq> - 1" by (simp add: GetAttempts_Linear)
  have m: "5 = nat (max (GetAttempts ?rs) 1)" by (simp add: GetAttempts_Linear)
  from fails have "\<forall>i<5. retryable (op_result f i (op_state w))" by simp
  from Do_exhausted [OF GetDelay_returns_Linear n m this]
  show "\<exists>w'. Do f ?rs w = Some (Inr (5, op_result f 4 (op_state w)), w')
             \<and> invocations w' = invocations w + 5"
    by auto
next
  show "LinearBackoff_GetDelay (NewLinearBackoff (500 * Millisecond) (2 * Second) 5) 4 = 2 * Second"
    by (simp add: linear_defs)
next
  show "sint (2 * Second) = 4 * sint (500 * Millisecond)"
    by (simp add: linear_defs)
qed

text \<open>
  The strategy of the tests at attempt 3: 300 ms. The first case of the README: five
  attempts and the temporary error.
\<close>

theorem C8_linear_delay_witness:
  "sint (LinearBackoff_GetDelay (NewLinearBackoff (100 * Millisecond) Second 5) 3) = 300000000
   \<and> (\<exists>w'. Do always_fails
              (LinearBackoff_strategy (NewLinearBackoff (500 * Millisecond) (2 * Second) 5)) start
             = Some (Inr (5, Some (New ''temporary error'')), w')
          \<and> invocations w' = 5)"
proof -
  let ?b = "NewLinearBackoff (100 * Millisecond) Second 5"
  have range: "- (2 ^ 63) \<le> 3 * sint (lin_retryDelay ?b) \<and> 3 * sint (lin_retryDelay ?b) < 2 ^ 63"
    by (simp add: linear_defs)
  have fails: "\<forall>i. retryable (op_result always_fails i (op_state start))"
    by (simp add: always_fails_retryable)
  have v: "capDelay_spec (3 * sint (lin_retryDelay ?b)) (sint (lin_maxDelay ?b)) = 300000000"
    by (simp add: linear_defs capDelay_spec_def)
  from C8_linear_delay [of ?b 3 always_fails start] range fails v
  show ?thesis by (auto simp: always_fails_result invocations_start)
qed

text \<open>
  C9. \<^verbatim>\<open>GetDelay\<close> of \<^verbatim>\<open>ExponentialBackoff\<close> at an attempt \<open>a \<ge> 0\<close> is \<^verbatim>\<open>capDelay\<close> of
  \<open>2 ^ a\<close> times the base delay, computed in \<^verbatim>\<open>int64\<close>: the product wraps modulo
  \<open>2 ^ 64\<close>, it is neither clamped nor saturated. From attempt 64 on the shift gives 0
  and so does the delay. With a base delay of 1 s and a maximum of 10 s the delay at
  attempt 34 has overflowed: it is negative, where the exact product capped would be
  10 s.
\<close>

theorem C9_exponential_delay:
  assumes "0 \<le> a"
  shows "ExponentialBackoff_GetDelay b a
           = Inr (capDelay (word_of_int (2 ^ nat a) * exp_retryDelay b) (exp_maxDelay b))
   \<and> (\<exists>d. ExponentialBackoff_GetDelay b a = Inr d
          \<and> sint d = capDelay_spec (signed_take_bit 63 (2 ^ nat a * sint (exp_retryDelay b)))
                       (sint (exp_maxDelay b)))
   \<and> (64 \<le> a \<longrightarrow> ExponentialBackoff_GetDelay b a = Inr 0)
   \<and> (\<exists>d. ExponentialBackoff_GetDelay (NewExponentialBackoff Second (10 * Second) n) 34 = Inr d
          \<and> sint d = - 1266874889709551616
          \<and> capDelay_spec (2 ^ 34 * sint Second) (sint (10 * Second)) = 10000000000)"
proof (intro conjI impI)
  show eq: "ExponentialBackoff_GetDelay b a
           = Inr (capDelay (word_of_int (2 ^ nat a) * exp_retryDelay b) (exp_maxDelay b))"
    using assms by (simp add: ExponentialBackoff_GetDelay_def push_bit_one_word)
  show "\<exists>d. ExponentialBackoff_GetDelay b a = Inr d
          \<and> sint d = capDelay_spec (signed_take_bit 63 (2 ^ nat a * sint (exp_retryDelay b)))
                       (sint (exp_maxDelay b))"
  proof (intro exI conjI)
    show "ExponentialBackoff_GetDelay b a
           = Inr (capDelay (word_of_int (2 ^ nat a) * exp_retryDelay b) (exp_maxDelay b))"
      by (rule eq)
    show "sint (capDelay (word_of_int (2 ^ nat a) * exp_retryDelay b) (exp_maxDelay b))
        = capDelay_spec (signed_take_bit 63 (2 ^ nat a * sint (exp_retryDelay b)))
                       (sint (exp_maxDelay b))"
      by (simp only: sint_capDelay sint_of_int_mult)
  qed
next
  assume "64 \<le> a"
  then have "64 \<le> nat a" by simp
  from shift_ge_64 [OF this] have z: "push_bit (nat a) (1 :: duration) = 0" .
  have cap0: "capDelay 0 (exp_maxDelay b) = 0"
    by (auto simp: capDelay_def word_sless_alt)
  from assms have "ExponentialBackoff_GetDelay b a
      = Inr (capDelay (push_bit (nat a) 1 * exp_retryDelay b) (exp_maxDelay b))"
    by (simp only: ExponentialBackoff_GetDelay_def) simp
  then show "ExponentialBackoff_GetDelay b a = Inr 0"
    by (simp only: z mult_zero_left cap0)
next
  show "\<exists>d. ExponentialBackoff_GetDelay (NewExponentialBackoff Second (10 * Second) n) 34 = Inr d
          \<and> sint d = - 1266874889709551616
          \<and> capDelay_spec (2 ^ 34 * sint Second) (sint (10 * Second)) = 10000000000"
    by (simp add: exponential_defs capDelay_spec_def)
qed

text \<open>The strategy of the tests at attempt 3: 800 ms, below the maximum of 1 s.\<close>

theorem C9_exponential_delay_witness:
  "\<exists>d. ExponentialBackoff_GetDelay (NewExponentialBackoff (100 * Millisecond) Second 5) 3 = Inr d
      \<and> sint d = 800000000"
proof -
  let ?b = "NewExponentialBackoff (100 * Millisecond) Second 5"
  have a: "(0::int) \<le> 3" by simp
  have v: "capDelay_spec (signed_take_bit 63 (2 ^ nat 3 * sint (exp_retryDelay ?b)))
             (sint (exp_maxDelay ?b)) = 800000000"
    by (simp add: exponential_defs capDelay_spec_def signed_take_bit_in_range)
  from C9_exponential_delay [OF a, of ?b]
  have "\<exists>d. ExponentialBackoff_GetDelay ?b 3 = Inr d
          \<and> sint d = capDelay_spec (signed_take_bit 63 (2 ^ nat 3 * sint (exp_retryDelay ?b)))
                       (sint (exp_maxDelay ?b))"
    by (rule conjunct2 [THEN conjunct1])
  then show ?thesis by (simp only: v)
qed



end
